theory Spec2Isabelle
  imports Complex_Main "HOL-Library.Word" "HOL-Library.Sublist"
begin

section \<open>The Python/N-API bridge of \<^verbatim>\<open>src/python_bridge.cc\<close>\<close>

text \<open>
  Besides the registration of the module (lines 183-193), the file holds three functions
  and one global: \<^verbatim>\<open>PyObjectToNapiValue\<close> (lines 19-65), \<^verbatim>\<open>ParsePythonJsonOutput\<close>
  (lines 73-96), \<^verbatim>\<open>executePythonSync\<close> (lines 105-177) and the flag
  \<^verbatim>\<open>python_initialized\<close> (line 11). They call two libraries that are not part of the
  repository: the CPython C API and node-addon-api. Values of both libraries are modelled
  by datatypes; the behaviour of the interpreter (what bring-up does, what running a source
  text does) is a parameter of the model. A run of the interpreter is a function of the
  source text and the interpreter's state: the model speaks of runs that return.
\<close>

subsection \<open>Host values (node-addon-api)\<close>

text \<open>
  A JavaScript number is an IEEE-754 binary64 value. It is modelled by the value it
  denotes. The bridge creates numbers in two ways only: it passes a C \<^verbatim>\<open>double\<close> through
  unchanged (line 47), or it converts a C \<^verbatim>\<open>long\<close> or the literal \<^verbatim>\<open>0\<close> to \<^verbatim>\<open>double\<close>
  (lines 40, 42, 91, 92), which rounds to 53 significant bits.
\<close>

datatype double = Finite rat | Pos_Infinity | Neg_Infinity | NaN | Neg_Zero

text \<open>
  A \<^verbatim>\<open>std::string\<close> is a sequence of bytes, so it is a \<^typ>\<open>string\<close>. A host string is
  created from a \<^verbatim>\<open>std::string\<close> or a C string literal holding UTF-8
  (\<^verbatim>\<open>Napi::String::New\<close>), and is modelled by these bytes. An object is the list of its
  properties in insertion order.
\<close>

datatype napi_value =
    Undefined
  | Null
  | Boolean bool
  | Number double
  | String string
  | Object "(string \<times> napi_value) list"

fun IsString :: "napi_value \<Rightarrow> bool" where
  "IsString (String s) = True"
| "IsString v = False"

fun Utf8Value :: "napi_value \<Rightarrow> string" where
  "Utf8Value (String s) = s"
| "Utf8Value v = []"

text \<open>\<^verbatim>\<open>obj.Set(key, v)\<close>: an existing property keeps its place, a new one goes last.\<close>

fun set_property :: "string \<Rightarrow> napi_value \<Rightarrow> (string \<times> napi_value) list \<Rightarrow> (string \<times> napi_value) list" where
  "set_property k v [] = [(k, v)]"
| "set_property k v (p # ps) = (if fst p = k then (k, v) # ps else p # set_property k v ps)"

fun Set_napi :: "napi_value \<Rightarrow> string \<Rightarrow> napi_value \<Rightarrow> napi_value" where
  "Set_napi (Object ps) k v = Object (set_property k v ps)"
| "Set_napi other k v = other"

fun Get_napi :: "napi_value \<Rightarrow> string \<Rightarrow> napi_value" where
  "Get_napi (Object ps) k = (case map_of ps k of Some v \<Rightarrow> v | None \<Rightarrow> Undefined)"
| "Get_napi other k = Undefined"

subsection \<open>C numbers\<close>

text \<open>
  \<^verbatim>\<open>long\<close> is taken as 64 bits wide (the LP64 platforms that Python and Node share on
  Linux and macOS). The conversion of a \<^verbatim>\<open>long\<close> to \<^verbatim>\<open>double\<close> at the call
  \<^verbatim>\<open>Napi::Number::New(env, result)\<close> rounds to the nearest binary64 value, ties to even:
  an integer of more than 53 bits loses its low bits.
\<close>

type_synonym long = "64 word"

fun bit_length :: "nat \<Rightarrow> nat" where
  "bit_length n = (if n = 0 then 0 else Suc (bit_length (n div 2)))"

declare bit_length.simps [simp del]

definition round_to_binary64 :: "int \<Rightarrow> int" where
  "round_to_binary64 n =
     (let a = nat \<bar>n\<bar>; e = bit_length a - 53 in
      if e = 0 then n
      else
        let q = a div 2 ^ e; r = a mod 2 ^ e; h = 2 ^ (e - 1);
            q' = (if h < r \<or> (r = h \<and> odd q) then q + 1 else q)
        in sgn n * int (q' * 2 ^ e))"

definition long_to_double :: "long \<Rightarrow> double" where
  "long_to_double x = Finite (of_int (round_to_binary64 (sint x)))"

definition LONG_MIN :: int where
  "LONG_MIN = - (2 ^ 63)"

definition LONG_MAX :: int where
  "LONG_MAX = 2 ^ 63 - 1"

text \<open>
  The safe integers of the host: the integers \<open>n\<close> such that \<open>n\<close> and its neighbours are
  exactly representable as a number (\<^verbatim>\<open>Number.MIN_SAFE_INTEGER\<close> to
  \<^verbatim>\<open>Number.MAX_SAFE_INTEGER\<close>).
\<close>

definition safe_integer :: "int \<Rightarrow> bool" where
  "safe_integer n = (- (2 ^ 53 - 1) \<le> n \<and> n \<le> 2 ^ 53 - 1)"

subsection \<open>Foreign values (CPython)\<close>

text \<open>
  A Python string is a sequence of code points; a Python \<^verbatim>\<open>int\<close> is unbounded.
  \<open>Py_Other\<close> stands for an object of any other type and carries the type's name
  (\<^verbatim>\<open>tp_name\<close>).
\<close>

type_synonym unicode = "nat list"

datatype PyObject =
    Py_None
  | Py_Bool bool
  | Py_Long int
  | Py_Float double
  | Py_Unicode unicode
  | Py_Other string

text \<open>The error indicator of the interpreter's thread: the pending exception, if any.\<close>

datatype py_exception = OverflowError | UnicodeEncodeError | Pending_exception string

abbreviation Py_True :: PyObject where
  "Py_True \<equiv> Py_Bool True"

text \<open>
  The type checks of the C API. \<^verbatim>\<open>bool\<close> is a subclass of \<^verbatim>\<open>int\<close>, so
  \<^verbatim>\<open>PyLong_Check\<close> holds of \<^verbatim>\<open>True\<close> and \<^verbatim>\<open>False\<close> too: the order of the tests in
  the source matters.
\<close>

fun PyBool_Check :: "PyObject \<Rightarrow> bool" where
  "PyBool_Check (Py_Bool b) = True"
| "PyBool_Check obj = False"

fun PyLong_Check :: "PyObject \<Rightarrow> bool" where
  "PyLong_Check (Py_Long n) = True"
| "PyLong_Check (Py_Bool b) = True"
| "PyLong_Check obj = False"

fun PyFloat_Check :: "PyObject \<Rightarrow> bool" where
  "PyFloat_Check (Py_Float d) = True"
| "PyFloat_Check obj = False"

fun PyUnicode_Check :: "PyObject \<Rightarrow> bool" where
  "PyUnicode_Check (Py_Unicode s) = True"
| "PyUnicode_Check obj = False"

text \<open>
  \<^verbatim>\<open>PyLong_AsLong\<close>: the value as a \<^verbatim>\<open>long\<close>; when it does not fit, \<open>-1\<close> with
  \<^verbatim>\<open>OverflowError\<close> set. The second component is the error indicator after the call.
\<close>

fun PyLong_AsLong :: "py_exception option \<Rightarrow> PyObject \<Rightarrow> long \<times> py_exception option" where
  "PyLong_AsLong err (Py_Long n) =
     (if LONG_MIN \<le> n \<and> n \<le> LONG_MAX then (word_of_int n, err) else (- 1, Some OverflowError))"
| "PyLong_AsLong err (Py_Bool b) = (if b then 1 else 0, err)"
| "PyLong_AsLong err obj = (- 1, Some (Pending_exception ''TypeError''))"

fun PyFloat_AsDouble :: "PyObject \<Rightarrow> double" where
  "PyFloat_AsDouble (Py_Float d) = d"
| "PyFloat_AsDouble obj = Finite (- 1)"

subsection \<open>UTF-8 and C strings\<close>

definition surrogate :: "nat \<Rightarrow> bool" where
  "surrogate c = (0xD800 \<le> c \<and> c \<le> 0xDFFF)"

definition encodable :: "nat \<Rightarrow> bool" where
  "encodable c = (c \<le> 0x10FFFF \<and> \<not> surrogate c)"

definition utf8_encode_cp :: "nat \<Rightarrow> string" where
  "utf8_encode_cp c =
     (if c < 0x80 then [char_of c]
      else if c < 0x800 then [char_of (0xC0 + c div 64), char_of (0x80 + c mod 64)]
      else if c < 0x10000 then
        [char_of (0xE0 + c div 4096), char_of (0x80 + c div 64 mod 64), char_of (0x80 + c mod 64)]
      else
        [char_of (0xF0 + c div 262144), char_of (0x80 + c div 4096 mod 64),
         char_of (0x80 + c div 64 mod 64), char_of (0x80 + c mod 64)])"

definition utf8_encode :: "unicode \<Rightarrow> string" where
  "utf8_encode s = concat (map utf8_encode_cp s)"

text \<open>The bytes of an encoded code point, as numbers.\<close>

definition utf8_byte_values :: "nat \<Rightarrow> nat list" where
  "utf8_byte_values c =
     (if c < 0x80 then [c]
      else if c < 0x800 then [0xC0 + c div 64, 0x80 + c mod 64]
      else if c < 0x10000 then [0xE0 + c div 4096, 0x80 + c div 64 mod 64, 0x80 + c mod 64]
      else [0xF0 + c div 262144, 0x80 + c div 4096 mod 64, 0x80 + c div 64 mod 64,
            0x80 + c mod 64])"

text \<open>
  The strict UTF-8 codec of \<^verbatim>\<open>PyUnicode_AsUTF8String\<close> and \<^verbatim>\<open>PyUnicode_AsUTF8\<close>: a string
  with a surrogate code point is refused (\<^verbatim>\<open>NULL\<close>, with \<^verbatim>\<open>UnicodeEncodeError\<close> set).
\<close>

definition PyUnicode_AsUTF8 :: "unicode \<Rightarrow> string option" where
  "PyUnicode_AsUTF8 s = (if list_all encodable s then Some (utf8_encode s) else None)"

fun PyUnicode_AsUTF8String :: "PyObject \<Rightarrow> string option" where
  "PyUnicode_AsUTF8String (Py_Unicode s) = PyUnicode_AsUTF8 s"
| "PyUnicode_AsUTF8String obj = None"

text \<open>
  A \<^verbatim>\<open>char*\<close> read as a C string (by the constructor \<^verbatim>\<open>std::string(const char*)\<close>, by
  \<^verbatim>\<open>operator+=(const char*)\<close>, or by the callee of \<^verbatim>\<open>c_str()\<close>) ends at its first zero
  byte.
\<close>

definition c_str :: "string \<Rightarrow> string" where
  "c_str bs = takeWhile (\<lambda>b. b \<noteq> CHR 0x00) bs"

subsection \<open>\<^verbatim>\<open>PyObjectToNapiValue\<close> (lines 19-65)\<close>

text \<open>
  The argument \<open>py_obj\<close> is \<open>None\<close> for \<^verbatim>\<open>nullptr\<close>. The function reads and clears the
  interpreter's error indicator (\<^verbatim>\<open>PyErr_Occurred\<close>, \<^verbatim>\<open>PyErr_Clear\<close>), so the indicator
  is an argument and a result. The source has no \<^verbatim>\<open>throw\<close> and calls no host function
  but the constructors of values.
\<close>

definition PyObjectToNapiValue :: "py_exception option \<Rightarrow> PyObject option \<Rightarrow> napi_value \<times> py_exception option" where
  "PyObjectToNapiValue err py_obj =
     (case py_obj of
        None \<Rightarrow> (Undefined, err)
      | Some obj \<Rightarrow>
          if obj = Py_None then (Null, err)
          else if PyBool_Check obj then (Boolean (obj = Py_True), err)
          else if PyLong_Check obj then
            (let (result, err1) = PyLong_AsLong err obj in
             if result = - 1 \<and> err1 \<noteq> None then (Number (Finite 0), None)
             else (Number (long_to_double result), err1))
          else if PyFloat_Check obj then (Number (PyFloat_AsDouble obj), err)
          else if PyUnicode_Check obj then
            (case PyUnicode_AsUTF8String obj of
               None \<Rightarrow> (String ''[Decoding Error]'', None)
             | Some py_bytes \<Rightarrow> (String (c_str py_bytes), err))
          else (String ''[Unsupported Python Type]'', err))"

subsection \<open>The interpreter as the bridge sees it\<close>

text \<open>
  What the embedded interpreter does is not code of the repository: it is a parameter, a
  record of the C API functions that \<^verbatim>\<open>executePythonSync\<close> calls, acting on an
  interpreter state of any type \<open>'h\<close>.

  Running a source text ends with a result object or with \<^verbatim>\<open>NULL\<close> and a pending
  exception, whose value \<^verbatim>\<open>PyErr_Fetch\<close> hands out (\<open>None\<close> when \<^verbatim>\<open>pvalue\<close> is
  \<^verbatim>\<open>NULL\<close>). An exception value is modelled by what \<^verbatim>\<open>PyObject_Str\<close> makes of it: a
  string, or \<open>None\<close> when \<^verbatim>\<open>__str__\<close> itself raises (what \<^verbatim>\<open>__str__\<close> does to the
  interpreter's state is left out). The text that the run wrote to the standard output is
  part of the outcome; nothing in the source reads it. \<^verbatim>\<open>PyImport_AddModule\<close> is modelled
  by whether it returns a module; \<^verbatim>\<open>PyModule_GetDict\<close> and the reference counting have no
  effect that the bridge observes.
\<close>

datatype exception_value = Exception_value "unicode option"

fun PyObject_Str :: "exception_value \<Rightarrow> unicode option" where
  "PyObject_Str (Exception_value s) = s"

datatype py_result = Result_object | Result_NULL "exception_value option"

record run_outcome =
  py_result :: py_result
  stdout_written :: string

record 'h python_api =
  Py_Initialize :: "'h \<Rightarrow> 'h"
  Py_IsInitialized :: "'h \<Rightarrow> bool"
  PyImport_AddModule :: "string \<Rightarrow> 'h \<Rightarrow> bool \<times> 'h"
  PyRun_String :: "string \<Rightarrow> 'h \<Rightarrow> run_outcome \<times> 'h"

text \<open>
  The state of the process: the global \<^verbatim>\<open>python_initialized\<close> (line 11), the state of
  the interpreter, and a log of the calls made to it, kept to state which calls a run of
  the bridge makes.
\<close>

datatype api_call = Call_Py_Initialize | Call_PyImport_AddModule string | Call_PyRun_String string

record 'h process =
  python_initialized :: bool
  interpreter :: 'h
  api_calls :: "api_call list"

text \<open>
  A call of the exported function returns a value, with or without a pending JavaScript
  exception (\<^verbatim>\<open>ThrowAsJavaScriptException\<close> followed by \<^verbatim>\<open>return env.Null()\<close>), or has
  undefined behaviour.
\<close>

datatype napi_error = Napi_Error string | Napi_TypeError string

fun Message :: "napi_error \<Rightarrow> string" where
  "Message (Napi_Error m) = m"
| "Message (Napi_TypeError m) = m"

datatype call_result = Returned napi_value "napi_error option" | Undefined_behaviour

subsection \<open>\<^verbatim>\<open>ParsePythonJsonOutput\<close> (lines 73-96)\<close>

definition ParsePythonJsonOutput :: "string \<Rightarrow> napi_value" where
  "ParsePythonJsonOutput json_string =
     (let result = Object [];
          result = Set_napi result ''result'' (Number (Finite 3628800));
          result = Set_napi result ''input'' (Number (Finite 10));
          result = Set_napi result ''message''
            (String ''Python code executed and output parsed by C++ bridge.'')
      in result)"

subsection \<open>\<^verbatim>\<open>executePythonSync\<close> (lines 105-177)\<close>

definition mock_json_output :: string where
  \<open>mock_json_output = ''{"result": 3628800, "input": 10}''\<close>

text \<open>
  Lines 144-163: the exception of the executed source becomes a host error. The
  \<^verbatim>\<open>char*\<close> of \<^verbatim>\<open>PyUnicode_AsUTF8\<close> is appended as a C string; when it is \<^verbatim>\<open>NULL\<close>,
  \<^verbatim>\<open>error_msg += NULL\<close> has undefined behaviour.
\<close>

definition python_error :: "exception_value option \<Rightarrow> call_result" where
  "python_error pvalue =
     (case pvalue of
        Some v \<Rightarrow>
          (let error_msg = ''Python Error: '' in
           case PyObject_Str v of
             Some pStr \<Rightarrow>
               (case PyUnicode_AsUTF8 pStr of
                  Some utf8 \<Rightarrow> Returned Null (Some (Napi_Error (error_msg @ c_str utf8)))
                | None \<Rightarrow> Undefined_behaviour)
           | None \<Rightarrow> Returned Null (Some (Napi_Error error_msg)))
      | None \<Rightarrow> Returned Null (Some (Napi_Error ''Unknown Python execution error.'')))"

text \<open>Lines 131-176: what follows the initialization block.\<close>

definition run_python_code :: "'h python_api \<Rightarrow> 'h process \<Rightarrow> string \<Rightarrow> call_result \<times> 'h process" where
  "run_python_code api st python_code =
     (let (py_main_module, h1) = PyImport_AddModule api ''__main__'' (interpreter st);
          st1 = st\<lparr>interpreter := h1,
                   api_calls := api_calls st @ [Call_PyImport_AddModule ''__main__'']\<rparr>
      in
      if \<not> py_main_module then
        (Returned Null (Some (Napi_Error ''Failed to get Python __main__ module.'')), st1)
      else
        let (outcome, h2) = PyRun_String api (c_str python_code) h1;
            st2 = st1\<lparr>interpreter := h2,
                      api_calls := api_calls st1 @ [Call_PyRun_String (c_str python_code)]\<rparr>
        in
        case py_result outcome of
          Result_NULL pvalue \<Rightarrow> (python_error pvalue, st2)
        | Result_object \<Rightarrow> (Returned (ParsePythonJsonOutput mock_json_output) None, st2))"

definition executePythonSync :: "'h python_api \<Rightarrow> 'h process \<Rightarrow> napi_value list \<Rightarrow> call_result \<times> 'h process" where
  "executePythonSync api st info =
     (if length info < 1 \<or> \<not> IsString (info ! 0) then
        (Returned Null (Some (Napi_TypeError ''Expected one string argument (Python code).'')), st)
      else
        let python_code = Utf8Value (info ! 0) in
        if \<not> python_initialized st then
          let st1 = st\<lparr>interpreter := Py_Initialize api (interpreter st),
                       api_calls := api_calls st @ [Call_Py_Initialize]\<rparr>
          in
          if \<not> Py_IsInitialized api (interpreter st1) then
            (Returned Null (Some (Napi_Error ''Failed to initialize Python interpreter.'')), st1)
          else run_python_code api (st1\<lparr>python_initialized := True\<rparr>) python_code
        else run_python_code api st python_code)"

text \<open>
  The host calls the exported function any number of times, one call after the other;
  nothing runs after undefined behaviour.
\<close>

fun execute_calls :: "'h python_api \<Rightarrow> 'h process \<Rightarrow> napi_value list list \<Rightarrow> call_result list \<times> 'h process" where
  "execute_calls api st [] = ([], st)"
| "execute_calls api st (info # rest) =
     (case executePythonSync api st info of
        (Undefined_behaviour, st1) \<Rightarrow> ([Undefined_behaviour], st1)
      | (r, st1) \<Rightarrow> (case execute_calls api st1 rest of (rs, st2) \<Rightarrow> (r # rs, st2)))"

text \<open>The process starts with \<^verbatim>\<open>python_initialized = false\<close> (line 11) and no call made.\<close>

definition initial_process :: "'h \<Rightarrow> 'h process" where
  "initial_process h = \<lparr>python_initialized = False, interpreter = h, api_calls = []\<rparr>"

subsection \<open>An interpreter to run examples on\<close>

text \<open>
  A small interpreter for the examples below: it knows the outcome of six Python
  programs, as CPython runs them, and treats any other source as one that neither prints
  nor raises (the examples use the six only). Its state counts the bring-up attempts; an
  attempt succeeds from the \<open>first_good\<close>-th on.
\<close>

definition json_source :: string where
  \<open>json_source = ''import json; print(json.dumps({"result": 120, "input": 5}))''\<close>

definition json_stdout :: string where
  \<open>json_stdout = ''{"result": 120, "input": 5}'' @ [CHR 0x0A]\<close>

definition hello_source :: string where
  \<open>hello_source = ''print("hello")''\<close>

definition surrogate_source :: string where
  \<open>surrogate_source = ''raise Exception(chr(0xDC80))''\<close>

definition nul_source :: string where
  \<open>nul_source = ''raise ValueError("a" + chr(0) + "b")''\<close>

definition ascii :: "string \<Rightarrow> unicode" where
  "ascii s = map of_char s"

definition demo_run :: "string \<Rightarrow> run_outcome" where
  "demo_run src =
     (if src = json_source then \<lparr>py_result = Result_object, stdout_written = json_stdout\<rparr>
      else if src = ''pass'' then \<lparr>py_result = Result_object, stdout_written = []\<rparr>
      else if src = hello_source then
        \<lparr>py_result = Result_object, stdout_written = ''hello'' @ [CHR 0x0A]\<rparr>
      else if src = ''1/0'' then
        \<lparr>py_result = Result_NULL (Some (Exception_value (Some (ascii ''division by zero'')))),
         stdout_written = []\<rparr>
      else if src = surrogate_source then
        \<lparr>py_result = Result_NULL (Some (Exception_value (Some [0xDC80]))), stdout_written = []\<rparr>
      else if src = nul_source then
        \<lparr>py_result = Result_NULL (Some (Exception_value (Some [0x61, 0, 0x62]))),
         stdout_written = []\<rparr>
      else \<lparr>py_result = Result_object, stdout_written = []\<rparr>)"

definition demo_python :: "nat \<Rightarrow> nat python_api" where
  "demo_python first_good =
     \<lparr>Py_Initialize = Suc,
      Py_IsInitialized = (\<lambda>h. first_good \<le> h),
      PyImport_AddModule = (\<lambda>name h. (True, h)),
      PyRun_String = (\<lambda>src h. (demo_run src, h))\<rparr>"

subsection \<open>Observations of a call\<close>

text \<open>
  The properties below speak of a source text that executes, with or without raising.
  A call with a string argument reaches \<^verbatim>\<open>PyRun_String\<close> (line 142) when the
  interpreter is up, because it was before the call or because bring-up succeeds now
  (lines 121-129), and the module \<^verbatim>\<open>__main__\<close> is found (lines 131-135). The outcome of
  the run is the outcome of \<^verbatim>\<open>PyRun_String\<close> in the interpreter state that these steps
  leave.
\<close>

definition interpreter_before_run :: "'h python_api \<Rightarrow> 'h process \<Rightarrow> 'h" where
  "interpreter_before_run api st =
     (if python_initialized st then interpreter st else Py_Initialize api (interpreter st))"

definition reaches_PyRun_String :: "'h python_api \<Rightarrow> 'h process \<Rightarrow> bool" where
  "reaches_PyRun_String api st =
     ((python_initialized st \<or> Py_IsInitialized api (Py_Initialize api (interpreter st)))
      \<and> fst (PyImport_AddModule api ''__main__'' (interpreter_before_run api st)))"

definition execution :: "'h python_api \<Rightarrow> 'h process \<Rightarrow> string \<Rightarrow> run_outcome" where
  "execution api st src =
     fst (PyRun_String api (c_str src)
            (snd (PyImport_AddModule api ''__main__'' (interpreter_before_run api st))))"

definition executes_without_raising :: "'h python_api \<Rightarrow> 'h process \<Rightarrow> string \<Rightarrow> bool" where
  "executes_without_raising api st src =
     (reaches_PyRun_String api st \<and> py_result (execution api st src) = Result_object)"

definition raises :: "'h python_api \<Rightarrow> 'h process \<Rightarrow> string \<Rightarrow> exception_value option \<Rightarrow> bool" where
  "raises api st src pvalue =
     (reaches_PyRun_String api st \<and> py_result (execution api st src) = Result_NULL pvalue)"

definition printed :: "'h python_api \<Rightarrow> 'h process \<Rightarrow> string \<Rightarrow> string" where
  "printed api st src = stdout_written (execution api st src)"

text \<open>The object that lines 87-93 build, and the failure of lines 125-126.\<close>

definition fixed_result :: napi_value where
  "fixed_result = Object
     [(''result'', Number (Finite 3628800)),
      (''input'', Number (Finite 10)),
      (''message'', String ''Python code executed and output parsed by C++ bridge.'')]"

definition init_failure :: call_result where
  "init_failure = Returned Null (Some (Napi_Error ''Failed to initialize Python interpreter.''))"

text \<open>The number of calls of \<^verbatim>\<open>Py_Initialize\<close> that the process has made.\<close>

definition initializations :: "'h process \<Rightarrow> nat" where
  "initializations st = count_list (api_calls st) Call_Py_Initialize"

subsection \<open>The specification's wording\<close>

text \<open>
  The three message forms of the specification's section 6, for the comparison with the
  messages of the source. The labels \<open><RuntimeError>\<close> and \<open><ParseError>\<close> are accepted
  with and without their angle brackets.
\<close>

definition spec_parse_error_message :: "string \<Rightarrow> bool" where
  "spec_parse_error_message m =
     (m = ''<ParseError>: captured output was not valid structured data''
      \<or> m = ''ParseError: captured output was not valid structured data'')"

definition spec_failure_message :: "string \<Rightarrow> bool" where
  "spec_failure_message m =
     (m = ''Failed to initialize interpreter''
      \<or> prefix ''<RuntimeError>: '' m \<or> prefix ''RuntimeError: '' m
      \<or> spec_parse_error_message m)"

text \<open>A host value describes a type name when it is a string in which the name occurs.\<close>

fun describes_type_name :: "napi_value \<Rightarrow> string \<Rightarrow> bool" where
  "describes_type_name (String s) name = sublist name s"
| "describes_type_name v name = False"

section \<open>Properties\<close>

subsection \<open>C numbers\<close>

lemma sint_long_of_int:
  "LONG_MIN \<le> n \<Longrightarrow> n \<le> LONG_MAX \<Longrightarrow> sint (word_of_int n :: long) = n"
  by (simp add: sint_sbintrunc' signed_take_bit_int_eq_self LONG_MIN_def LONG_MAX_def)

lemma long_of_int_eq_minus_1:
  assumes "LONG_MIN \<le> n" and "n \<le> LONG_MAX"
  shows "(word_of_int n = (- 1 :: long)) = (n = - 1)"
proof
  assume "word_of_int n = (- 1 :: long)"
  then have "sint (word_of_int n :: long) = sint (- 1 :: long)" by simp
  with assms show "n = - 1" by (simp add: sint_long_of_int)
next
  assume "n = - 1"
  then show "word_of_int n = (- 1 :: long)" by simp
qed

lemma bit_length_le: "n < 2 ^ k \<Longrightarrow> bit_length n \<le> k"
proof (induction k arbitrary: n)
  case 0
  then show ?case by (simp add: bit_length.simps)
next
  case (Suc k)
  show ?case
  proof (cases "n = 0")
    case True
    then show ?thesis by (simp add: bit_length.simps)
  next
    case False
    from Suc.prems have "n div 2 < 2 ^ k" by simp
    then have "bit_length (n div 2) \<le> k" by (rule Suc.IH)
    with False show ?thesis by (subst bit_length.simps) simp
  qed
qed

lemma round_to_binary64_exact:
  assumes "\<bar>n\<bar> < 2 ^ 53"
  shows "round_to_binary64 n = n"
proof -
  from assms have "nat \<bar>n\<bar> < 2 ^ 53" by simp
  then have "bit_length (nat \<bar>n\<bar>) \<le> 53" by (rule bit_length_le)
  then show ?thesis by (simp add: round_to_binary64_def Let_def)
qed

subsection \<open>UTF-8 and C strings\<close>

lemma char_of_eq_NUL: "(char_of (n::nat) = CHR 0x00) = (n mod 256 = 0)"
proof -
  have "char_of (0::nat) = CHR 0x00" by (simp add: char_of_def)
  then show ?thesis by (metis of_char_of char_of_eq_iff mod_0)
qed

lemma char_of_neq_NUL: "0 < n \<Longrightarrow> n < 256 \<Longrightarrow> char_of (n::nat) \<noteq> CHR 0x00"
  by (simp add: char_of_eq_NUL)

lemma continuation_byte_neq_NUL: "char_of (0x80 + x mod 64 :: nat) \<noteq> CHR 0x00"
proof (rule char_of_neq_NUL)
  show "0 < 0x80 + x mod 64" by simp
  have "x mod 64 < 64" by simp
  then show "0x80 + x mod 64 < 256" by linarith
qed

lemma NUL_in_utf8_encode_cp:
  assumes "c \<le> 0x10FFFF" and "CHR 0x00 \<in> set (utf8_encode_cp c)"
  shows "c = 0"
proof (rule ccontr)
  assume nz: "c \<noteq> 0"
  have one: "c < 0x80 \<Longrightarrow> char_of c \<noteq> CHR 0x00"
    using nz by (intro char_of_neq_NUL) simp_all
  have two: "c < 0x800 \<Longrightarrow> char_of (0xC0 + c div 64) \<noteq> CHR 0x00"
    by (intro char_of_neq_NUL) simp_all
  have three: "c < 0x10000 \<Longrightarrow> char_of (0xE0 + c div 4096) \<noteq> CHR 0x00"
    by (intro char_of_neq_NUL) simp_all
  have four: "char_of (0xF0 + c div 262144) \<noteq> CHR 0x00"
    using assms(1) by (intro char_of_neq_NUL) simp_all
  have "\<forall>b\<in>set (utf8_encode_cp c). b \<noteq> CHR 0x00"
    unfolding utf8_encode_cp_def
    using one two three four by (simp add: continuation_byte_neq_NUL)
  with assms(2) show False by blast
qed

lemma utf8_encode_cp_0: "utf8_encode_cp 0 = [CHR 0x00]"
  by (simp add: utf8_encode_cp_def char_of_def)

lemma utf8_encode_Nil: "utf8_encode [] = []"
  by (simp add: utf8_encode_def)

lemma utf8_encode_Cons: "utf8_encode (c # s) = utf8_encode_cp c @ utf8_encode s"
  by (simp add: utf8_encode_def)

lemma c_str_utf8_encode:
  "list_all (\<lambda>c. c \<le> 0x10FFFF) s \<Longrightarrow> c_str (utf8_encode s) = utf8_encode (takeWhile (\<lambda>c. c \<noteq> 0) s)"
proof (induction s)
  case Nil
  then show ?case by (simp add: c_str_def utf8_encode_def)
next
  case (Cons c s)
  show ?case
  proof (cases "c = 0")
    case True
    then show ?thesis by (simp add: utf8_encode_Cons utf8_encode_Nil utf8_encode_cp_0 c_str_def)
  next
    case False
    with Cons.prems have "\<forall>b\<in>set (utf8_encode_cp c). b \<noteq> CHR 0x00"
      using NUL_in_utf8_encode_cp by auto
    then have "c_str (utf8_encode_cp c @ utf8_encode s) = utf8_encode_cp c @ c_str (utf8_encode s)"
      by (simp add: c_str_def takeWhile_append2)
    with False Cons show ?thesis by (simp add: utf8_encode_Cons)
  qed
qed
lemma c_str_utf8_encode_without_NUL:
  assumes "list_all encodable s" and "0 \<notin> set s"
  shows "c_str (utf8_encode s) = utf8_encode s"
proof -
  from assms(1) have "list_all (\<lambda>c. c \<le> 0x10FFFF) s"
    by (simp add: list_all_iff encodable_def)
  then have cut: "c_str (utf8_encode s) = utf8_encode (takeWhile (\<lambda>c. c \<noteq> 0) s)"
    by (rule c_str_utf8_encode)
  from assms(2) have whole: "takeWhile (\<lambda>c. c \<noteq> 0) s = s"
    by (induction s) auto
  show ?thesis by (simp only: cut whole)
qed

text \<open>
  The encoding loses nothing: strings that the codec accepts and that have the same bytes
  are the same string. A host string, modelled by its UTF-8 bytes, therefore stands for
  one sequence of code points.
\<close>

lemma char_of_inj:
  assumes "a < 256" and "b < 256" and "char_of (a::nat) = char_of b"
  shows "a = b"
proof -
  from assms(3) have "of_char (char_of a) = (of_char (char_of b) :: nat)" by simp
  then have "a mod 256 = b mod 256" by (simp only: of_char_of)
  with assms(1,2) show ?thesis by simp
qed

lemma split2: "c div 64 = d div 64 \<Longrightarrow> c mod 64 = d mod 64 \<Longrightarrow> (c::nat) = d"
  by (metis div_mult_mod_eq)

lemma split3:
  assumes a: "c div 4096 = d div 4096" and b: "c div 64 mod 64 = d div 64 mod 64"
    and m: "c mod 64 = d mod 64"
  shows "(c::nat) = d"
proof -
  have "c div 64 div 64 = d div 64 div 64" using a by (simp add: div_mult2_eq [symmetric])
  then have "c div 64 = d div 64" using b by (rule split2)
  then show ?thesis using m by (rule split2)
qed

lemma split4:
  assumes a: "c div 262144 = d div 262144" and b: "c div 4096 mod 64 = d div 4096 mod 64"
    and b': "c div 64 mod 64 = d div 64 mod 64" and m: "c mod 64 = d mod 64"
  shows "(c::nat) = d"
proof -
  have "c div 4096 div 64 = d div 4096 div 64" using a by (simp add: div_mult2_eq [symmetric])
  then have "c div 4096 = d div 4096" using b by (rule split2)
  then show ?thesis using b' m by (rule split3)
qed

lemma of_char_char_of: "x < 256 \<Longrightarrow> of_char (char_of (x::nat)) = x"
  by (simp add: of_char_of)

lemma continuation_value: "of_char (char_of (0x80 + x mod 64 :: nat)) = 0x80 + x mod 64"
proof (rule of_char_char_of)
  have "x mod 64 < 64" by simp
  then show "0x80 + x mod 64 < 256" by linarith
qed

lemma byte_values_of_utf8_encode_cp:
  assumes "c \<le> 0x10FFFF"
  shows "map of_char (utf8_encode_cp c) = utf8_byte_values c"
proof -
  have one: "c < 0x80 \<Longrightarrow> of_char (char_of c) = c"
    by (rule of_char_char_of) simp
  have two: "c < 0x800 \<Longrightarrow> of_char (char_of (0xC0 + c div 64)) = 0xC0 + c div 64"
    by (rule of_char_char_of) simp
  have three: "c < 0x10000 \<Longrightarrow> of_char (char_of (0xE0 + c div 4096)) = 0xE0 + c div 4096"
    by (rule of_char_char_of) simp
  have four: "of_char (char_of (0xF0 + c div 262144)) = 0xF0 + c div 262144"
    using assms by (intro of_char_char_of) simp
  show ?thesis
    unfolding utf8_encode_cp_def utf8_byte_values_def
    using one two three four by (simp add: continuation_value)
qed

lemma utf8_byte_values_inj:
  assumes "c \<le> 0x10FFFF" and "d \<le> 0x10FFFF"
    and "hd (utf8_byte_values c) = hd (utf8_byte_values d)"
  shows "length (utf8_byte_values c) = length (utf8_byte_values d)"
proof -
  have c2: "c < 0x800 \<Longrightarrow> c div 64 < 32" and c3: "c < 0x10000 \<Longrightarrow> c div 4096 < 16"
    and c2': "\<not> c < 0x80 \<Longrightarrow> 2 \<le> c div 64"
    by simp_all
  have d2: "d < 0x800 \<Longrightarrow> d div 64 < 32" and d3: "d < 0x10000 \<Longrightarrow> d div 4096 < 16"
    and d2': "\<not> d < 0x80 \<Longrightarrow> 2 \<le> d div 64"
    by simp_all
  show ?thesis
    using assms(3) c2 c3 d2 d3
    by (auto simp: utf8_byte_values_def split: if_splits)
qed

lemma utf8_byte_values_not_Nil: "utf8_byte_values c \<noteq> []"
  by (simp add: utf8_byte_values_def)

lemma utf8_byte_values_eq:
  assumes "c \<le> 0x10FFFF" and "d \<le> 0x10FFFF" and eq: "utf8_byte_values c = utf8_byte_values d"
  shows "c = d"
proof -
  from eq have "hd (utf8_byte_values c) = hd (utf8_byte_values d)" by simp
  with assms(1,2) have len: "length (utf8_byte_values c) = length (utf8_byte_values d)"
    by (rule utf8_byte_values_inj)
  consider (one) "c < 0x80" | (two) "\<not> c < 0x80" "c < 0x800"
    | (three) "\<not> c < 0x800" "c < 0x10000" | (four) "\<not> c < 0x10000"
    by linarith
  then show ?thesis
  proof cases
    case one
    with len have "d < 0x80" by (simp add: utf8_byte_values_def split: if_splits)
    with one eq show ?thesis by (simp add: utf8_byte_values_def)
  next
    case two
    with len have "\<not> d < 0x80" "d < 0x800" by (simp_all add: utf8_byte_values_def split: if_splits)
    with two eq have "c div 64 = d div 64" "c mod 64 = d mod 64"
      by (simp_all add: utf8_byte_values_def)
    then show ?thesis by (rule split2)
  next
    case three
    with len have "\<not> d < 0x800" "d < 0x10000"
      by (simp_all add: utf8_byte_values_def split: if_splits)
    with three eq have "c div 4096 = d div 4096" "c div 64 mod 64 = d div 64 mod 64"
      "c mod 64 = d mod 64"
      by (simp_all add: utf8_byte_values_def)
    then show ?thesis by (rule split3)
  next
    case four
    with len have "\<not> d < 0x10000" by (simp add: utf8_byte_values_def split: if_splits)
    with four eq have "c div 262144 = d div 262144" "c div 4096 mod 64 = d div 4096 mod 64"
      "c div 64 mod 64 = d div 64 mod 64" "c mod 64 = d mod 64"
      by (simp_all add: utf8_byte_values_def)
    then show ?thesis by (rule split4)
  qed
qed

lemma byte_values_of_utf8_encode:
  assumes "list_all encodable s"
  shows "map of_char (utf8_encode s) = concat (map utf8_byte_values s)"
  using assms
  by (induction s) (simp_all add: utf8_encode_def byte_values_of_utf8_encode_cp encodable_def)

lemma concat_utf8_byte_values_inj:
  assumes "list_all encodable s" and "list_all encodable t"
    and "concat (map utf8_byte_values s) = concat (map utf8_byte_values t)"
  shows "s = t"
  using assms
proof (induction s arbitrary: t)
  case Nil
  then show ?case by (cases t) (simp_all add: utf8_byte_values_not_Nil)
next
  case (Cons c s)
  show ?case
  proof (cases t)
    case Nil
    with Cons.prems(3) show ?thesis by (simp add: utf8_byte_values_not_Nil)
  next
    case (Cons d t')
    with Cons.prems have bound: "c \<le> 0x10FFFF" "d \<le> 0x10FFFF"
      by (simp_all add: encodable_def)
    from Cons.prems(3) have whole:
      "utf8_byte_values c @ concat (map utf8_byte_values s)
         = utf8_byte_values d @ concat (map utf8_byte_values t')"
      by (simp add: Cons)
    then have "hd (utf8_byte_values c) = hd (utf8_byte_values d)"
      by (metis hd_append2 utf8_byte_values_not_Nil)
    with bound have "length (utf8_byte_values c) = length (utf8_byte_values d)"
      by (rule utf8_byte_values_inj)
    with whole have "utf8_byte_values c = utf8_byte_values d"
      and rest: "concat (map utf8_byte_values s) = concat (map utf8_byte_values t')"
      by simp_all
    with bound have "c = d" by (simp add: utf8_byte_values_eq)
    moreover from Cons.prems(1,2) rest have "s = t'"
      by (intro Cons.IH) (simp_all add: Cons)
    ultimately show ?thesis by (simp add: Cons)
  qed
qed

lemma utf8_encode_inj:
  assumes "list_all encodable s" and "list_all encodable t" and "utf8_encode s = utf8_encode t"
  shows "s = t"
proof -
  from assms(3) have "map of_char (utf8_encode s) = (map of_char (utf8_encode t) :: nat list)"
    by simp
  with assms(1,2) have "concat (map utf8_byte_values s) = concat (map utf8_byte_values t)"
    by (simp add: byte_values_of_utf8_encode)
  with assms(1,2) show ?thesis by (rule concat_utf8_byte_values_inj)
qed

subsection \<open>Evaluation\<close>

lemma bit_length_0: "bit_length 0 = 0"
  by (subst bit_length.simps) simp

lemma bit_length_pos: "0 < n \<Longrightarrow> bit_length n = Suc (bit_length (n div 2))"
  by (subst bit_length.simps) simp

lemmas number_eval =
  round_to_binary64_def long_to_double_def bit_length_0 bit_length_pos Let_def
  LONG_MIN_def LONG_MAX_def safe_integer_def

lemmas utf8_eval =
  PyUnicode_AsUTF8_def encodable_def surrogate_def utf8_encode_def utf8_encode_cp_def
  c_str_def char_of_def bit_Suc_0_iff

lemma PyObjectToNapiValue_scalars:
  shows "PyObjectToNapiValue err (Some Py_None) = (Null, err)"
    and "PyObjectToNapiValue err (Some (Py_Bool b)) = (Boolean b, err)"
    and "PyObjectToNapiValue err (Some (Py_Float d)) = (Number d, err)"
  by (simp_all add: PyObjectToNapiValue_def)

lemma PyObjectToNapiValue_long_in_range:
  assumes "LONG_MIN \<le> n" and "n \<le> LONG_MAX" and "n \<noteq> - 1 \<or> err = None"
  shows "PyObjectToNapiValue err (Some (Py_Long n)) = (Number (Finite (of_int (round_to_binary64 n))), err)"
  using assms
  by (auto simp: PyObjectToNapiValue_def long_to_double_def sint_long_of_int long_of_int_eq_minus_1)

lemma PyObjectToNapiValue_long_overflow:
  assumes "\<not> (LONG_MIN \<le> n \<and> n \<le> LONG_MAX)"
  shows "PyObjectToNapiValue err (Some (Py_Long n)) = (Number (Finite 0), None)"
proof -
  from assms have "PyLong_AsLong err (Py_Long n) = (- 1, Some OverflowError)" by auto
  then show ?thesis by (simp add: PyObjectToNapiValue_def)
qed

lemma PyObjectToNapiValue_unicode:
  assumes "list_all encodable s"
  shows "PyObjectToNapiValue err (Some (Py_Unicode s)) = (String (utf8_encode (takeWhile (\<lambda>c. c \<noteq> 0) s)), err)"
proof -
  from assms have "list_all (\<lambda>c. c \<le> 0x10FFFF) s"
    by (simp add: list_all_iff encodable_def)
  then have "c_str (utf8_encode s) = utf8_encode (takeWhile (\<lambda>c. c \<noteq> 0) s)"
    by (rule c_str_utf8_encode)
  with assms show ?thesis
    by (simp add: PyObjectToNapiValue_def PyUnicode_AsUTF8_def)
qed

lemma PyObjectToNapiValue_undecodable:
  assumes "\<not> list_all encodable s"
  shows "PyObjectToNapiValue err (Some (Py_Unicode s)) = (String ''[Decoding Error]'', None)"
  using assms by (simp add: PyObjectToNapiValue_def PyUnicode_AsUTF8_def)

lemma PyObjectToNapiValue_other:
  "PyObjectToNapiValue err (Some (Py_Other name)) = (String ''[Unsupported Python Type]'', err)"
  by (simp add: PyObjectToNapiValue_def)

lemma safe_integer_long: "safe_integer n \<Longrightarrow> LONG_MIN \<le> n \<and> n \<le> LONG_MAX"
  by (simp add: safe_integer_def LONG_MIN_def LONG_MAX_def)

lemma PyObjectToNapiValue_error_indicator:
  "snd (PyObjectToNapiValue err py_obj) = err \<or> snd (PyObjectToNapiValue err py_obj) = None"
proof (cases py_obj)
  case None
  then show ?thesis by (simp add: PyObjectToNapiValue_def)
next
  case (Some obj)
  then show ?thesis
    by (cases obj) (auto simp: PyObjectToNapiValue_def split: option.splits)
qed


subsection \<open>The value conversion\<close>

text \<open>
  C6, as amended. The conversion is total and leaves no error pending that was not
  pending before: the error indicator after the call is the one before it, or is cleared.
  An object of an unsupported type becomes the fixed string
  \<open>[Unsupported Python Type]\<close>, whatever the name of its type; a string that the UTF-8
  codec refuses becomes the string \<open>[Decoding Error]\<close>, and the codec's error is cleared.
\<close>

theorem PyObjectToNapiValue_total_with_sentinels:
  "(snd (PyObjectToNapiValue err py_obj) = err \<or> snd (PyObjectToNapiValue err py_obj) = None)
   \<and> PyObjectToNapiValue err (Some (Py_Other name)) = (String ''[Unsupported Python Type]'', err)
   \<and> (\<not> list_all encodable s \<longrightarrow>
        PyObjectToNapiValue err (Some (Py_Unicode s)) = (String ''[Decoding Error]'', None))"
  using PyObjectToNapiValue_error_indicator [of err py_obj]
    PyObjectToNapiValue_other [of err name] PyObjectToNapiValue_undecodable [of s err]
  by blast

theorem PyObjectToNapiValue_total_with_sentinels_witness:
  "\<not> list_all encodable [0xD800]
   \<and> PyObjectToNapiValue None (Some (Py_Unicode [0xD800])) = (String ''[Decoding Error]'', None)
   \<and> PyObjectToNapiValue None (Some (Py_Other ''list'')) = (String ''[Unsupported Python Type]'', None)
   \<and> snd (PyObjectToNapiValue None (Some (Py_Long (2 ^ 64)))) = None"
  using PyObjectToNapiValue_total_with_sentinels [of None "Some (Py_Long (2 ^ 64))" "''list''" "[0xD800]"]
  by (simp add: encodable_def surrogate_def)

text \<open>
  C6 as the specification states it fails: the string for an unsupported type does not
  describe the type's name. Objects of the types \<open>list\<close> and \<open>dict\<close> become the same
  string, in which the name \<open>list\<close> does not occur.
\<close>

theorem unsupported_type_name_not_described:
  "fst (PyObjectToNapiValue None (Some (Py_Other ''list'')))
     = fst (PyObjectToNapiValue None (Some (Py_Other ''dict'')))
   \<and> \<not> describes_type_name (fst (PyObjectToNapiValue None (Some (Py_Other ''list'')))) ''list''"
  by (simp add: PyObjectToNapiValue_other sublist_Cons_right)

text \<open>
  C7, as amended. An integer outside the safe range of the host is converted without a
  new error left pending: to the number \<open>0\<close> when it does not fit a C \<^verbatim>\<open>long\<close> (the
  error indicator is cleared), and otherwise to the nearest binary64 value (the error
  indicator is untouched). The result for an integer that does not fit is the result for
  the integer \<open>0\<close>: nothing in it tells that the conversion was lossy.
\<close>

theorem PyObjectToNapiValue_unsafe_integer:
  assumes "\<not> safe_integer n"
  shows "PyObjectToNapiValue err (Some (Py_Long n)) =
           (if LONG_MIN \<le> n \<and> n \<le> LONG_MAX
            then (Number (Finite (of_int (round_to_binary64 n))), err)
            else (Number (Finite 0), None))
         \<and> (\<not> (LONG_MIN \<le> n \<and> n \<le> LONG_MAX) \<longrightarrow>
              fst (PyObjectToNapiValue err (Some (Py_Long n)))
                = fst (PyObjectToNapiValue err (Some (Py_Long 0))))"
proof (cases "LONG_MIN \<le> n \<and> n \<le> LONG_MAX")
  case True
  from assms have "n \<noteq> - 1" by (auto simp: safe_integer_def)
  with True show ?thesis by (simp add: PyObjectToNapiValue_long_in_range)
next
  case False
  have "round_to_binary64 0 = 0" by (simp add: round_to_binary64_exact)
  then have zero: "fst (PyObjectToNapiValue err (Some (Py_Long 0))) = Number (Finite 0)"
    by (simp add: PyObjectToNapiValue_long_in_range LONG_MIN_def LONG_MAX_def)
  from False have "PyObjectToNapiValue err (Some (Py_Long n)) = (Number (Finite 0), None)"
    by (rule PyObjectToNapiValue_long_overflow)
  with zero False show ?thesis unfolding if_not_P [OF False] by simp
qed

theorem PyObjectToNapiValue_unsafe_integer_witness:
  "\<not> safe_integer (2 ^ 53 + 1)
   \<and> PyObjectToNapiValue None (Some (Py_Long (2 ^ 53 + 1))) = (Number (Finite (2 ^ 53)), None)
   \<and> \<not> safe_integer (2 ^ 64)
   \<and> PyObjectToNapiValue (Some (Pending_exception ''earlier'')) (Some (Py_Long (2 ^ 64)))
       = (Number (Finite 0), None)"
  using PyObjectToNapiValue_unsafe_integer [of "2 ^ 53 + 1" None]
    PyObjectToNapiValue_unsafe_integer [of "2 ^ 64" "Some (Pending_exception ''earlier'')"]
  by (simp add: number_eval)

text \<open>
  C7 as the specification states it fails: the caller cannot detect the lossy conversion.
  The integer \<open>2^64\<close> is outside the safe range and \<open>0\<close> is inside it, and both are
  converted to the same host value with the same error indicator.
\<close>

theorem lossy_conversion_not_detectable:
  "\<not> safe_integer (2 ^ 64) \<and> safe_integer 0
   \<and> PyObjectToNapiValue None (Some (Py_Long (2 ^ 64))) = PyObjectToNapiValue None (Some (Py_Long 0))"
  by (simp add: PyObjectToNapiValue_def number_eval)

text \<open>
  C8 fails on the source. The Python string \<open>a\<close>, U+0000, \<open>b\<close> is encoded by the UTF-8 codec
  without error, as three bytes, and the host string holds the first byte only: line 58
  builds the \<^verbatim>\<open>std::string\<close> from a \<^verbatim>\<open>char*\<close>, which ends at the first zero byte.
\<close>

theorem PyObjectToNapiValue_truncates_at_NUL:
  "PyUnicode_AsUTF8String (Py_Unicode [0x61, 0, 0x62]) = Some [CHR ''a'', CHR 0x00, CHR ''b'']
   \<and> PyObjectToNapiValue None (Some (Py_Unicode [0x61, 0, 0x62])) = (String ''a'', None)"
  by (simp add: PyObjectToNapiValue_def utf8_eval)

text \<open>
  What does hold of the scalars: \<^verbatim>\<open>None\<close>, booleans, safe integers, floats, and
  encodable strings without the code point U+0000 keep their value; two such strings
  that become the same host string are the same.
\<close>

lemma PyObjectToNapiValue_safe_integer:
  assumes "safe_integer n"
  shows "fst (PyObjectToNapiValue None (Some (Py_Long n))) = Number (Finite (of_int n))"
proof -
  from assms have "\<bar>n\<bar> < 2 ^ 53" unfolding safe_integer_def by linarith
  then have "round_to_binary64 n = n" by (rule round_to_binary64_exact)
  with assms show ?thesis
    by (simp add: PyObjectToNapiValue_long_in_range safe_integer_long)
qed

lemma PyObjectToNapiValue_string_without_NUL:
  assumes "list_all encodable s" and "0 \<notin> set s"
  shows "PyObjectToNapiValue err (Some (Py_Unicode s)) = (String (utf8_encode s), err)"
proof -
  from assms(2) have whole: "takeWhile (\<lambda>c. c \<noteq> 0) s = s"
    by (induction s) auto
  from assms(1) have "PyObjectToNapiValue err (Some (Py_Unicode s))
      = (String (utf8_encode (takeWhile (\<lambda>c. c \<noteq> 0) s)), err)"
    by (rule PyObjectToNapiValue_unicode)
  then show ?thesis by (simp only: whole)
qed

lemma PyObjectToNapiValue_strings_distinct:
  assumes "list_all encodable s" and "0 \<notin> set s"
    and "list_all encodable t" and "0 \<notin> set t"
    and "fst (PyObjectToNapiValue err (Some (Py_Unicode s)))
           = fst (PyObjectToNapiValue err (Some (Py_Unicode t)))"
  shows "s = t"
proof -
  from assms have "utf8_encode s = utf8_encode t"
    by (simp add: PyObjectToNapiValue_string_without_NUL)
  with assms(1,3) show ?thesis by (rule utf8_encode_inj)
qed

lemma PyObjectToNapiValue_examples:
  shows "PyObjectToNapiValue None (Some (Py_Float (Finite (314 / 100)))) = (Number (Finite (314 / 100)), None)"
    and "PyObjectToNapiValue None (Some (Py_Unicode (ascii ''hi''))) = (String ''hi'', None)"
    and "PyObjectToNapiValue None (Some (Py_Unicode [0xE9, 0x20AC, 0x1F600]))
           = (String [CHR 0xC3, CHR 0xA9, CHR 0xE2, CHR 0x82, CHR 0xAC, CHR 0xF0, CHR 0x9F, CHR 0x98, CHR 0x80], None)"
  by (simp_all add: PyObjectToNapiValue_def utf8_eval ascii_def)

subsection \<open>The outcomes of \<^verbatim>\<open>executePythonSync\<close>\<close>

lemmas demo_eval =
  demo_python_def demo_run_def initial_process_def json_source_def json_stdout_def
  hello_source_def surrogate_source_def nul_source_def ascii_def c_str_def
  reaches_PyRun_String_def interpreter_before_run_def execution_def
  executes_without_raising_def raises_def printed_def

lemmas bridge_eval =
  executePythonSync_def run_python_code_def python_error_def ParsePythonJsonOutput_def
  fixed_result_def init_failure_def initializations_def Let_def

lemma ParsePythonJsonOutput_fixed: "ParsePythonJsonOutput json_string = fixed_result"
  by (simp add: ParsePythonJsonOutput_def fixed_result_def)

lemma executePythonSync_invalid:
  assumes "length info < 1 \<or> \<not> IsString (info ! 0)"
  shows "executePythonSync api st info =
    (Returned Null (Some (Napi_TypeError ''Expected one string argument (Python code).'')), st)"
  using assms by (simp add: executePythonSync_def)

lemma executePythonSync_string:
  "executePythonSync api st (String src # rest) =
     (if \<not> python_initialized st then
        let st1 = st\<lparr>interpreter := Py_Initialize api (interpreter st),
                     api_calls := api_calls st @ [Call_Py_Initialize]\<rparr>
        in
        if \<not> Py_IsInitialized api (interpreter st1) then
          (Returned Null (Some (Napi_Error ''Failed to initialize Python interpreter.'')), st1)
        else run_python_code api (st1\<lparr>python_initialized := True\<rparr>) src
      else run_python_code api st src)"
  by (simp add: executePythonSync_def)

lemma info_cases:
  obtains "length info < 1 \<or> \<not> IsString (info ! 0)" | src rest where "info = String src # rest"
proof (cases info)
  case Nil
  then show ?thesis using that(1) by simp
next
  case (Cons a rest)
  then show ?thesis using that by (cases a) auto
qed

lemma run_python_code_result:
  "fst (run_python_code api st src) =
     (if \<not> fst (PyImport_AddModule api ''__main__'' (interpreter st)) then
        Returned Null (Some (Napi_Error ''Failed to get Python __main__ module.''))
      else
        case py_result (fst (PyRun_String api (c_str src)
                               (snd (PyImport_AddModule api ''__main__'' (interpreter st))))) of
          Result_NULL pvalue \<Rightarrow> python_error pvalue
        | Result_object \<Rightarrow> Returned fixed_result None)"
  by (simp add: run_python_code_def ParsePythonJsonOutput_fixed split: prod.splits py_result.splits)

lemma run_python_code_state:
  "python_initialized (snd (run_python_code api st src)) = python_initialized st"
  "initializations (snd (run_python_code api st src)) = initializations st"
  by (simp_all add: run_python_code_def initializations_def Let_def
      split: prod.splits py_result.splits)

lemma executePythonSync_result:
  "fst (executePythonSync api st (String src # rest)) =
     (if \<not> (python_initialized st \<or> Py_IsInitialized api (Py_Initialize api (interpreter st))) then
        Returned Null (Some (Napi_Error ''Failed to initialize Python interpreter.''))
      else if \<not> fst (PyImport_AddModule api ''__main__'' (interpreter_before_run api st)) then
        Returned Null (Some (Napi_Error ''Failed to get Python __main__ module.''))
      else
        case py_result (execution api st src) of
          Result_NULL pvalue \<Rightarrow> python_error pvalue
        | Result_object \<Rightarrow> Returned fixed_result None)"
  by (simp add: executePythonSync_string run_python_code_result execution_def
      interpreter_before_run_def Let_def)

lemma executePythonSync_success:
  assumes "executes_without_raising api st src"
  shows "fst (executePythonSync api st (String src # rest)) = Returned fixed_result None"
  using assms
  by (auto simp: executePythonSync_result executes_without_raising_def reaches_PyRun_String_def)

lemma executePythonSync_raises:
  assumes "raises api st src pvalue"
  shows "fst (executePythonSync api st (String src # rest)) = python_error pvalue"
  using assms
  by (auto simp: executePythonSync_result raises_def reaches_PyRun_String_def)

lemma python_error_cases:
  "python_error pvalue = Undefined_behaviour
   \<or> python_error pvalue = Returned Null (Some (Napi_Error ''Unknown Python execution error.''))
   \<or> (\<exists>description.
        python_error pvalue = Returned Null (Some (Napi_Error (''Python Error: '' @ description))))"
  by (auto simp: python_error_def Let_def split: option.splits)

lemma executePythonSync_outcomes:
  "fst (executePythonSync api st info)
     = Returned Null (Some (Napi_TypeError ''Expected one string argument (Python code).''))
   \<or> fst (executePythonSync api st info)
     = Returned Null (Some (Napi_Error ''Failed to initialize Python interpreter.''))
   \<or> fst (executePythonSync api st info)
     = Returned Null (Some (Napi_Error ''Failed to get Python __main__ module.''))
   \<or> fst (executePythonSync api st info)
     = Returned Null (Some (Napi_Error ''Unknown Python execution error.''))
   \<or> (\<exists>description. fst (executePythonSync api st info)
     = Returned Null (Some (Napi_Error (''Python Error: '' @ description))))
   \<or> fst (executePythonSync api st info) = Undefined_behaviour
   \<or> fst (executePythonSync api st info) = Returned fixed_result None"
proof (cases info rule: info_cases)
  case 1
  then show ?thesis by (simp add: executePythonSync_invalid)
next
  case (2 src rest)
  show ?thesis
  proof (cases "py_result (execution api st src)")
    case Result_object
    then show ?thesis unfolding 2 by (simp add: executePythonSync_result)
  next
    case (Result_NULL pvalue)
    with python_error_cases [of pvalue] show ?thesis
      unfolding 2 by (auto simp: executePythonSync_result)
  qed
qed

lemma executePythonSync_outcome_cases:
  obtains (type_error) "fst (executePythonSync api st info)
      = Returned Null (Some (Napi_TypeError ''Expected one string argument (Python code).''))"
  | (no_interpreter) "fst (executePythonSync api st info)
      = Returned Null (Some (Napi_Error ''Failed to initialize Python interpreter.''))"
  | (no_module) "fst (executePythonSync api st info)
      = Returned Null (Some (Napi_Error ''Failed to get Python __main__ module.''))"
  | (no_value) "fst (executePythonSync api st info)
      = Returned Null (Some (Napi_Error ''Unknown Python execution error.''))"
  | (python_error) description where "fst (executePythonSync api st info)
      = Returned Null (Some (Napi_Error (''Python Error: '' @ description)))"
  | (undefined) "fst (executePythonSync api st info) = Undefined_behaviour"
  | (success) "fst (executePythonSync api st info) = Returned fixed_result None"
  using executePythonSync_outcomes [of api st info] by blast

text \<open>
  C1, as amended. Every source text that executes without raising, whatever it prints,
  yields a successful outcome whose value is one fixed object with the properties
  \<open>result = 3628800\<close>, \<open>input = 10\<close> and a fixed \<open>message\<close>: the shape of the result is
  fixed and does not follow the printed output.
\<close>

theorem executePythonSync_returns_fixed_object:
  assumes "executes_without_raising api st src"
  shows "fst (executePythonSync api st [String src]) = Returned fixed_result None
    \<and> Get_napi fixed_result ''result'' = Number (Finite 3628800)
    \<and> Get_napi fixed_result ''input'' = Number (Finite 10)
    \<and> Get_napi fixed_result ''message''
        = String ''Python code executed and output parsed by C++ bridge.''"
  using assms [THEN executePythonSync_success] by (simp add: fixed_result_def)

theorem executePythonSync_returns_fixed_object_witness:
  "executes_without_raising (demo_python 1) (initial_process 0) json_source
   \<and> printed (demo_python 1) (initial_process 0) json_source = json_stdout
   \<and> fst (executePythonSync (demo_python 1) (initial_process 0) [String json_source])
       = Returned fixed_result None"
  using executePythonSync_returns_fixed_object [of "demo_python 1" "initial_process 0" json_source]
  by (simp add: demo_eval)

text \<open>
  C1 as the specification states it fails. The source
  \<^verbatim>\<open>import json; print(json.dumps({"result": 120, "input": 5}))\<close> executes without raising
  and prints the single JSON object of the specification's example; the call returns the
  fixed object, whose \<open>result\<close> is not 120, whose \<open>input\<close> is not 5, and which has a third
  property.
\<close>

theorem printed_JSON_is_not_the_result:
  \<open>executes_without_raising (demo_python 1) (initial_process 0) json_source
   \<and> printed (demo_python 1) (initial_process 0) json_source
       = ''{"result": 120, "input": 5}'' @ [CHR 0x0A]
   \<and> fst (executePythonSync (demo_python 1) (initial_process 0) [String json_source])
       = Returned fixed_result None
   \<and> Get_napi fixed_result ''result'' \<noteq> Number (Finite 120)
   \<and> Get_napi fixed_result ''input'' \<noteq> Number (Finite 5)
   \<and> Get_napi fixed_result ''message'' \<noteq> Undefined\<close>
  by (simp add: bridge_eval demo_eval)

text \<open>
  C2, as amended. Every source text that executes without raising, also one that prints
  nothing or prints data that is not valid structured data, yields a successful outcome
  carrying the fixed object; and no call fails with the specification's ParseError
  message.
\<close>

theorem executePythonSync_never_ParseError:
  "(executes_without_raising api st src \<longrightarrow>
      fst (executePythonSync api st [String src]) = Returned fixed_result None)
   \<and> (fst (executePythonSync api st info) = Returned v (Some e) \<longrightarrow>
      \<not> spec_parse_error_message (Message e))"
proof (intro conjI impI)
  assume "executes_without_raising api st src"
  then show "fst (executePythonSync api st [String src]) = Returned fixed_result None"
    by (rule executePythonSync_success)
next
  assume failed: "fst (executePythonSync api st info) = Returned v (Some e)"
  show "\<not> spec_parse_error_message (Message e)"
    using executePythonSync_outcomes [of api st info] failed
    by (auto simp: spec_parse_error_message_def)
qed

theorem executePythonSync_never_ParseError_witness:
  "executes_without_raising (demo_python 1) (initial_process 0) ''pass''
   \<and> printed (demo_python 1) (initial_process 0) ''pass'' = []
   \<and> fst (executePythonSync (demo_python 1) (initial_process 0) [String ''pass''])
       = Returned fixed_result None
   \<and> fst (executePythonSync (demo_python 1) (initial_process 0) [String ''1/0''])
       = Returned Null (Some (Napi_Error ''Python Error: division by zero''))
   \<and> \<not> spec_parse_error_message ''Python Error: division by zero''"
  using executePythonSync_never_ParseError [of "demo_python 1" "initial_process 0" "''pass''"
      "[String ''1/0'']" Null "Napi_Error ''Python Error: division by zero''"]
  by (simp add: bridge_eval demo_eval utf8_eval)

text \<open>
  C2 as the specification states it fails. The source \<^verbatim>\<open>pass\<close> prints nothing and the
  source \<^verbatim>\<open>print("hello")\<close> prints a line that is not structured data; both calls succeed
  with the fixed object.
\<close>

theorem silent_and_invalid_output_succeed:
  "executes_without_raising (demo_python 1) (initial_process 0) ''pass''
   \<and> printed (demo_python 1) (initial_process 0) ''pass'' = []
   \<and> fst (executePythonSync (demo_python 1) (initial_process 0) [String ''pass''])
       = Returned fixed_result None
   \<and> executes_without_raising (demo_python 1) (initial_process 0) hello_source
   \<and> printed (demo_python 1) (initial_process 0) hello_source = ''hello'' @ [CHR 0x0A]
   \<and> fst (executePythonSync (demo_python 1) (initial_process 0) [String hello_source])
       = Returned fixed_result None"
  by (simp add: bridge_eval demo_eval)

text \<open>
  C3, as amended. Whenever \<^verbatim>\<open>executePythonSync\<close> returns with a host error pending, the
  returned value is \<open>Null\<close> and the error is one of five: the \<^verbatim>\<open>TypeError\<close>
  \<open>Expected one string argument (Python code).\<close>, or an \<^verbatim>\<open>Error\<close> with the message
  \<open>Failed to initialize Python interpreter.\<close>, \<open>Failed to get Python __main__ module.\<close>,
  \<open>Unknown Python execution error.\<close>, or \<open>Python Error: \<close> followed by a description.
\<close>

theorem executePythonSync_failure_messages:
  assumes "fst (executePythonSync api st info) = Returned v (Some e)"
  shows "v = Null
    \<and> (e = Napi_TypeError ''Expected one string argument (Python code).''
       \<or> e = Napi_Error ''Failed to initialize Python interpreter.''
       \<or> e = Napi_Error ''Failed to get Python __main__ module.''
       \<or> e = Napi_Error ''Unknown Python execution error.''
       \<or> (\<exists>description. e = Napi_Error (''Python Error: '' @ description)))"
proof (cases rule: executePythonSync_outcome_cases [of api st info])
  case type_error
  with assms show ?thesis by simp
next
  case no_interpreter
  with assms show ?thesis by simp
next
  case no_module
  with assms show ?thesis by simp
next
  case no_value
  with assms show ?thesis by simp
next
  case (python_error description)
  with assms have "v = Null" and "e = Napi_Error (''Python Error: '' @ description)"
    by simp_all
  then show ?thesis by blast
next
  case undefined
  with assms show ?thesis by simp
next
  case success
  with assms show ?thesis by simp
qed

theorem executePythonSync_failure_messages_witness:
  "fst (executePythonSync (demo_python 1) (initial_process 0) [String ''1/0''])
     = Returned Null (Some (Napi_Error ''Python Error: division by zero''))"
  using executePythonSync_failure_messages [of "demo_python 1" "initial_process 0"
      "[String ''1/0'']" Null "Napi_Error ''Python Error: division by zero''"]
  by (simp add: bridge_eval demo_eval utf8_eval)

text \<open>
  C3 as the specification states it fails. When \<^verbatim>\<open>PyImport_AddModule\<close> returns
  \<^verbatim>\<open>NULL\<close> the message is \<open>Failed to get Python __main__ module.\<close>, which is of none of
  the three forms, however their labels are read; when bring-up fails the message is
  \<open>Failed to initialize Python interpreter.\<close>, not \<open>Failed to initialize interpreter\<close>;
  and the message for a division by zero starts with the label \<open>Python Error\<close>.
\<close>

theorem failure_messages_outside_the_three_forms:
  "fst (executePythonSync ((demo_python 1)\<lparr>PyImport_AddModule := (\<lambda>name h. (False, h))\<rparr>)
          (initial_process 0) [String ''pass''])
     = Returned Null (Some (Napi_Error ''Failed to get Python __main__ module.''))
   \<and> \<not> spec_failure_message ''Failed to get Python __main__ module.''
   \<and> fst (executePythonSync (demo_python 2) (initial_process 0) [String ''pass''])
     = Returned Null (Some (Napi_Error ''Failed to initialize Python interpreter.''))
   \<and> \<not> spec_failure_message ''Failed to initialize Python interpreter.''
   \<and> fst (executePythonSync (demo_python 1) (initial_process 0) [String ''1/0''])
     = Returned Null (Some (Napi_Error ''Python Error: division by zero''))
   \<and> \<not> spec_failure_message ''Python Error: division by zero''"
  by (simp add: bridge_eval demo_eval utf8_eval spec_failure_message_def
      spec_parse_error_message_def)

text \<open>
  C4 fails on the source. The source \<^verbatim>\<open>raise Exception(chr(0xDC80))\<close> raises an exception
  whose description holds a surrogate: \<^verbatim>\<open>PyUnicode_AsUTF8\<close> returns \<^verbatim>\<open>NULL\<close> and line 152
  appends it to a \<^verbatim>\<open>std::string\<close>, which is undefined behaviour, not a failure with a
  message. The source \<^verbatim>\<open>raise ValueError("a" + chr(0) + "b")\<close> raises an exception whose
  description holds U+0000: the same line appends a C string, and the message has the
  description's first character only.
\<close>

theorem exception_description_mishandled:
  "raises (demo_python 1) (initial_process 0) surrogate_source
     (Some (Exception_value (Some [0xDC80])))
   \<and> fst (executePythonSync (demo_python 1) (initial_process 0) [String surrogate_source])
       = Undefined_behaviour
   \<and> raises (demo_python 1) (initial_process 0) nul_source
       (Some (Exception_value (Some [0x61, 0, 0x62])))
   \<and> fst (executePythonSync (demo_python 1) (initial_process 0) [String nul_source])
       = Returned Null (Some (Napi_Error ''Python Error: a''))"
  by (simp add: bridge_eval demo_eval utf8_eval)

text \<open>
  What does hold of a raising source: when the description can be encoded and has no
  U+0000, the message is \<open>Python Error: \<close> followed by the description, and the flag
  \<^verbatim>\<open>python_initialized\<close> is set after the call; without a description, or without an
  exception value, the message is a fixed one.
\<close>

lemma reaches_PyRun_String_initialized:
  assumes "reaches_PyRun_String api st"
  shows "python_initialized (snd (executePythonSync api st (String src # rest)))"
  using assms
  by (auto simp: executePythonSync_string run_python_code_state reaches_PyRun_String_def Let_def)

lemma executePythonSync_exception_message:
  assumes "raises api st src (Some (Exception_value (Some s)))"
    and "list_all encodable s" and "0 \<notin> set s"
  shows "fst (executePythonSync api st [String src])
           = Returned Null (Some (Napi_Error (''Python Error: '' @ utf8_encode s)))"
    and "python_initialized (snd (executePythonSync api st [String src]))"
proof -
  from assms(2,3) have "c_str (utf8_encode s) = utf8_encode s"
    by (rule c_str_utf8_encode_without_NUL)
  with assms(2) have "python_error (Some (Exception_value (Some s)))
      = Returned Null (Some (Napi_Error (''Python Error: '' @ utf8_encode s)))"
    by (simp add: python_error_def PyUnicode_AsUTF8_def)
  with assms(1) show "fst (executePythonSync api st [String src])
      = Returned Null (Some (Napi_Error (''Python Error: '' @ utf8_encode s)))"
    by (simp add: executePythonSync_raises)
  from assms(1) show "python_initialized (snd (executePythonSync api st [String src]))"
    by (simp add: raises_def reaches_PyRun_String_initialized)
qed

lemma executePythonSync_exception_fallbacks:
  shows "raises api st src None \<Longrightarrow>
      fst (executePythonSync api st [String src])
        = Returned Null (Some (Napi_Error ''Unknown Python execution error.''))"
    and "raises api st src (Some (Exception_value None)) \<Longrightarrow>
      fst (executePythonSync api st [String src]) = Returned Null (Some (Napi_Error ''Python Error: ''))"
  by (simp_all add: executePythonSync_raises python_error_def)

text \<open>
  A call after a raising one: the division by zero is reported, the flag stays set, and
  the next call runs its source without a second bring-up.
\<close>

lemma call_after_exception:
  "execute_calls (demo_python 1) (initial_process 0) [[String ''1/0''], [String ''pass'']]
     = ([Returned Null (Some (Napi_Error ''Python Error: division by zero'')),
         Returned fixed_result None],
        \<lparr>python_initialized = True, interpreter = 1,
         api_calls = [Call_Py_Initialize,
           Call_PyImport_AddModule ''__main__'', Call_PyRun_String ''1/0'',
           Call_PyImport_AddModule ''__main__'', Call_PyRun_String ''pass'']\<rparr>)"
  by (simp add: bridge_eval demo_eval utf8_eval)

subsection \<open>Initialization\<close>

lemma python_error_not_init_failure: "python_error pvalue \<noteq> init_failure"
  using python_error_cases [of pvalue] by (auto simp: init_failure_def)

lemma run_python_code_not_init_failure: "fst (run_python_code api st src) \<noteq> init_failure"
  by (simp add: run_python_code_result python_error_not_init_failure split: py_result.splits)
    (simp add: init_failure_def fixed_result_def)

lemma executePythonSync_step:
  "initializations (snd (executePythonSync api st info)) + (if python_initialized st then 1 else 0)
     = initializations st
       + (if fst (executePythonSync api st info) = init_failure then 1 else 0)
       + (if python_initialized (snd (executePythonSync api st info)) then 1 else 0)"
proof (cases info rule: info_cases)
  case 1
  then show ?thesis by (simp add: executePythonSync_invalid init_failure_def)
next
  case (2 src rest)
  show ?thesis
    unfolding 2 executePythonSync_string
    by (simp add: Let_def run_python_code_state run_python_code_not_init_failure)
      (simp add: initializations_def init_failure_def)
qed

lemma executePythonSync_keeps_initialized:
  assumes "python_initialized st"
  shows "python_initialized (snd (executePythonSync api st info))
         \<and> initializations (snd (executePythonSync api st info)) = initializations st"
proof (cases info rule: info_cases)
  case 1
  with assms show ?thesis by (simp add: executePythonSync_invalid)
next
  case (2 src rest)
  with assms show ?thesis by (simp add: executePythonSync_string run_python_code_state)
qed

lemma execute_calls_step:
  "initializations (snd (execute_calls api st calls)) + (if python_initialized st then 1 else 0)
     = initializations st
       + count_list (fst (execute_calls api st calls)) init_failure
       + (if python_initialized (snd (execute_calls api st calls)) then 1 else 0)"
proof (induction calls arbitrary: st)
  case Nil
  then show ?case by simp
next
  case (Cons info rest)
  obtain r st1 where step: "executePythonSync api st info = (r, st1)"
    by (cases "executePythonSync api st info")
  have one: "initializations st1 + (if python_initialized st then 1 else 0)
      = initializations st + (if r = init_failure then 1 else 0)
        + (if python_initialized st1 then 1 else 0)"
    using executePythonSync_step [of api st info] by (simp add: step)
  show ?case
  proof (cases "r = Undefined_behaviour")
    case True
    with one show ?thesis by (simp add: step init_failure_def)
  next
    case False
    obtain rs st2 where rest: "execute_calls api st1 rest = (rs, st2)"
      by (cases "execute_calls api st1 rest")
    have more: "initializations st2 + (if python_initialized st1 then 1 else 0)
        = initializations st1 + count_list rs init_failure
          + (if python_initialized st2 then 1 else 0)"
      using Cons.IH [of st1] by (simp add: rest)
    from False have "execute_calls api st (info # rest) = (r # rs, st2)"
      by (cases r) (simp_all add: step rest)
    with one more show ?thesis by (simp split: if_splits)
  qed
qed

text \<open>
  C5. Once \<^verbatim>\<open>python_initialized\<close> is set, a call leaves it set and does not call
  \<^verbatim>\<open>Py_Initialize\<close>. While it is not set, a call with a string argument calls
  \<^verbatim>\<open>Py_Initialize\<close> once: when the interpreter is up afterwards the flag is set; when it
  is not, the call fails with \<open>Failed to initialize Python interpreter.\<close> and leaves the
  flag unset, so that the next call tries again. Over any sequence of calls, every call
  of \<^verbatim>\<open>Py_Initialize\<close> is either one that failed, and was reported, or the one that set
  the flag: bring-up succeeds at most once.
\<close>

theorem initialization_at_most_once:
  "(python_initialized st \<longrightarrow>
      python_initialized (snd (executePythonSync api st info))
      \<and> initializations (snd (executePythonSync api st info)) = initializations st)
   \<and> (\<not> python_initialized st \<and> Py_IsInitialized api (Py_Initialize api (interpreter st)) \<longrightarrow>
      python_initialized (snd (executePythonSync api st (String src # rest)))
      \<and> initializations (snd (executePythonSync api st (String src # rest)))
          = Suc (initializations st))
   \<and> (\<not> python_initialized st \<and> \<not> Py_IsInitialized api (Py_Initialize api (interpreter st)) \<longrightarrow>
      executePythonSync api st (String src # rest)
        = (Returned Null (Some (Napi_Error ''Failed to initialize Python interpreter.'')),
           st\<lparr>interpreter := Py_Initialize api (interpreter st),
              api_calls := api_calls st @ [Call_Py_Initialize]\<rparr>)
      \<and> \<not> python_initialized (snd (executePythonSync api st (String src # rest))))
   \<and> initializations (snd (execute_calls api st calls)) + (if python_initialized st then 1 else 0)
       = initializations st
         + count_list (fst (execute_calls api st calls)) init_failure
         + (if python_initialized (snd (execute_calls api st calls)) then 1 else 0)"
proof (intro conjI impI)
  assume "python_initialized st"
  then show "python_initialized (snd (executePythonSync api st info))"
    and "initializations (snd (executePythonSync api st info)) = initializations st"
    using executePythonSync_keeps_initialized [of st api info] by simp_all
next
  assume up: "\<not> python_initialized st \<and> Py_IsInitialized api (Py_Initialize api (interpreter st))"
  then show "python_initialized (snd (executePythonSync api st (String src # rest)))"
    by (simp add: executePythonSync_string run_python_code_state)
  from up show "initializations (snd (executePythonSync api st (String src # rest)))
      = Suc (initializations st)"
    by (simp add: executePythonSync_string run_python_code_state) (simp add: initializations_def)
next
  assume down: "\<not> python_initialized st \<and> \<not> Py_IsInitialized api (Py_Initialize api (interpreter st))"
  then show "executePythonSync api st (String src # rest)
      = (Returned Null (Some (Napi_Error ''Failed to initialize Python interpreter.'')),
         st\<lparr>interpreter := Py_Initialize api (interpreter st),
            api_calls := api_calls st @ [Call_Py_Initialize]\<rparr>)"
    by (simp add: executePythonSync_string)
  with down show "\<not> python_initialized (snd (executePythonSync api st (String src # rest)))"
    by simp
next
  show "initializations (snd (execute_calls api st calls)) + (if python_initialized st then 1 else 0)
       = initializations st
         + count_list (fst (execute_calls api st calls)) init_failure
         + (if python_initialized (snd (execute_calls api st calls)) then 1 else 0)"
    by (rule execute_calls_step)
qed

text \<open>
  Three calls in a process whose first bring-up fails and whose second succeeds: the
  first call reports the failure and leaves the flag unset, the second sets it, the third
  skips initialization; \<^verbatim>\<open>Py_Initialize\<close> was called twice.
\<close>

theorem initialization_at_most_once_witness:
  "\<not> python_initialized (initial_process (0::nat))
   \<and> \<not> Py_IsInitialized (demo_python 2) (Py_Initialize (demo_python 2) (interpreter (initial_process 0)))
   \<and> fst (executePythonSync (demo_python 2) (initial_process 0) [String ''pass'']) = init_failure
   \<and> \<not> python_initialized (snd (executePythonSync (demo_python 2) (initial_process 0) [String ''pass'']))
   \<and> fst (execute_calls (demo_python 2) (initial_process 0)
             [[String ''pass''], [String ''pass''], [String ''pass'']])
        = [init_failure, Returned fixed_result None, Returned fixed_result None]
   \<and> python_initialized (snd (execute_calls (demo_python 2) (initial_process 0)
             [[String ''pass''], [String ''pass''], [String ''pass'']]))
   \<and> initializations (snd (execute_calls (demo_python 2) (initial_process 0)
             [[String ''pass''], [String ''pass''], [String ''pass'']])) = 2"
  using initialization_at_most_once [where st = "initial_process (0::nat)" and api = "demo_python 2"
      and info = "[String ''pass'']" and src = "''pass''" and rest = "[]"
      and calls = "[[String ''pass''], [String ''pass''], [String ''pass'']]"]
  by (simp add: bridge_eval demo_eval)

subsection \<open>Arguments and the independence of the result\<close>

text \<open>
  C9. A call with no argument, or with a first argument that is not a string, returns
  \<open>Null\<close> with the \<^verbatim>\<open>TypeError\<close> \<open>Expected one string argument (Python code).\<close> pending,
  and leaves the process as it was: the flag, the interpreter and the log of calls to it
  are unchanged, so nothing was initialized or executed.
\<close>

theorem executePythonSync_rejects_non_string:
  assumes "length info < 1 \<or> \<not> IsString (info ! 0)"
  shows "executePythonSync api st info =
    (Returned Null (Some (Napi_TypeError ''Expected one string argument (Python code).'')), st)"
  using assms by (simp add: executePythonSync_def)

theorem executePythonSync_rejects_non_string_witness:
  "executePythonSync (demo_python 1) (initial_process 0) []
     = (Returned Null (Some (Napi_TypeError ''Expected one string argument (Python code).'')),
        \<lparr>python_initialized = False, interpreter = 0, api_calls = []\<rparr>)
   \<and> executePythonSync (demo_python 1) (initial_process 0) [Number (Finite 5), String ''pass'']
     = (Returned Null (Some (Napi_TypeError ''Expected one string argument (Python code).'')),
        \<lparr>python_initialized = False, interpreter = 0, api_calls = []\<rparr>)"
  using executePythonSync_rejects_non_string [of "[]" "demo_python 1" "initial_process 0"]
    executePythonSync_rejects_non_string
      [of "[Number (Finite 5), String ''pass'']" "demo_python 1" "initial_process 0"]
  by (simp add: initial_process_def)

text \<open>
  C10. Any two source texts that execute without raising, in any two states of the
  process, yield the same successful outcome: the fixed object with \<open>result = 3628800\<close>,
  \<open>input = 10\<close> and the fixed message, whatever either source printed or computed.
\<close>

theorem executePythonSync_result_independent_of_source:
  assumes "executes_without_raising api st1 src1" and "executes_without_raising api st2 src2"
  shows "fst (executePythonSync api st1 [String src1]) = fst (executePythonSync api st2 [String src2])
    \<and> fst (executePythonSync api st1 [String src1]) =
        Returned (Object [(''result'', Number (Finite 3628800)), (''input'', Number (Finite 10)),
          (''message'', String ''Python code executed and output parsed by C++ bridge.'')]) None"
  using assms [THEN executePythonSync_success] by (simp add: fixed_result_def)

theorem executePythonSync_result_independent_of_source_witness:
  "executes_without_raising (demo_python 1) (initial_process 0) json_source
   \<and> executes_without_raising (demo_python 1) (initial_process 0) ''pass''
   \<and> printed (demo_python 1) (initial_process 0) json_source
       \<noteq> printed (demo_python 1) (initial_process 0) ''pass''
   \<and> fst (executePythonSync (demo_python 1) (initial_process 0) [String json_source])
       = fst (executePythonSync (demo_python 1) (initial_process 0) [String ''pass''])"
  using executePythonSync_result_independent_of_source
    [of "demo_python 1" "initial_process 0" json_source "initial_process 0" "''pass''"]
  by (simp add: demo_eval)

end
